theory Spec2Isabelle
  imports Complex_Main
begin

section \<open>The hero canvas: quality tier, scene, frame loop and teardown\<close>

text \<open>
  The component \<^verbatim>\<open>HeroCanvas\<close> builds a small three-dimensional scene inside a host
  \<^verbatim>\<open>div\<close>, animates it from \<^verbatim>\<open>requestAnimationFrame\<close> callbacks and
  releases it in the cleanup function of its initialisation effect. JavaScript numbers
  are modelled as reals (rounding and \<^verbatim>\<open>NaN\<close> are left out), a value that may be
  \<^verbatim>\<open>undefined\<close> or \<^verbatim>\<open>null\<close> as an \<open>option\<close>, and object identity as a
  handle (a natural number) taken from an allocation counter.
\<close>

subsection \<open>Quality tier\<close>

type_synonym handle = nat

datatype tier = Low | High

text \<open>\<^verbatim>\<open>v || d\<close> on a number that may be undefined: undefined and \<open>0\<close> are falsy.\<close>

definition or_default :: "real option \<Rightarrow> real \<Rightarrow> real" where
  "or_default v d = (case v of None \<Rightarrow> d | Some x \<Rightarrow> if x = 0 then d else x)"

definition getPerformanceLevel :: "real option \<Rightarrow> real option \<Rightarrow> tier" where
  "getPerformanceLevel navHardwareConcurrency navDeviceMemory =
     (let hardwareConcurrency = or_default navHardwareConcurrency 4;
          memory = or_default navDeviceMemory 4
      in if hardwareConcurrency \<le> 4 \<or> memory \<le> 4 then Low else High)"

definition orbitCount :: "tier \<Rightarrow> nat" where
  "orbitCount performanceLevel = (if performanceLevel = High then 12 else 8)"

definition targetFPS :: "tier \<Rightarrow> real" where
  "targetFPS performanceLevel = (if performanceLevel = High then 60 else 30)"

definition frameInterval :: "tier \<Rightarrow> real" where
  "frameInterval performanceLevel = 1000 / targetFPS performanceLevel"

subsection \<open>Scene objects\<close>

text \<open>
  An orbiting sphere is a mesh with its own geometry and material, the \<^verbatim>\<open>userData\<close>
  bag written at creation, and the position and rotation every \<^verbatim>\<open>Object3D\<close> starts
  with (the origin, no rotation): the initialisation never assigns a position.
\<close>

record orbitSphere =
  geometry :: handle
  material :: handle
  radius :: real
  angle :: real
  height :: real
  speed :: real
  verticalSpeed :: real
  position_x :: real
  position_y :: real
  position_z :: real
  rotation_y :: real

record coreMesh =
  coreGeometry :: handle
  coreMaterial :: handle
  core_rotation_x :: real
  core_rotation_y :: real

text \<open>
  What one successful initialisation creates and stores in \<^verbatim>\<open>sceneRef\<close>,
  \<^verbatim>\<open>rendererRef\<close>, \<^verbatim>\<open>cameraRef\<close>, \<^verbatim>\<open>orbitsRef\<close> and \<^verbatim>\<open>clockRef\<close>
  (the five are assigned together). The scene's children are the two lights, the core and
  the orbiting spheres, in the order of the \<^verbatim>\<open>scene.add\<close> calls; \<^verbatim>\<open>orbitsRef\<close>
  holds the same sphere objects, so the model keeps them once. Colours, the fog, the
  camera's projection and the size of the surface play no part in what follows.
\<close>

record three =
  antialias :: bool
  domElement :: handle
  rendererDisposals :: nat
  renderCalls :: nat
  core :: coreMesh
  orbits :: "orbitSphere list"

datatype js_error = WebGLNotSupported | ImportRejected | TypeError | ContextCreationFailed
  | NotFoundError

text \<open>
  What the host supplies to one run of the initialisation: the capability signals, whether
  the dynamic import and the renderer's constructor succeed (both are library code), and
  the values of the successive \<^verbatim>\<open>Math.random()\<close> calls.
\<close>

record env =
  webGL :: bool
  importOk :: bool
  rendererOk :: bool
  hardwareConcurrency :: "real option"
  deviceMemory :: "real option"
  random :: "nat \<Rightarrow> real"

record hero =
  paused :: bool
  prefersReducedMotion :: bool
  isVisible :: bool
  error :: "js_error option"
  mountRef :: bool
  container :: "handle list"
  frameRef :: "nat option"
  refs :: "three option"
  mounted :: bool
  run_paused :: bool
  run_prefersReducedMotion :: bool
  run_isVisible :: bool
  performanceLevel :: tier
  lastFrameTime :: real
  hasCleanup :: bool
  pendingFrames :: "nat list"
  nextFrameId :: nat
  nextHandle :: handle
  disposed :: "handle list"
  scenesCreated :: nat

text \<open>
  \<open>paused\<close>, \<open>prefersReducedMotion\<close> and \<open>isVisible\<close> are the props and the state of the
  latest render; \<open>mountRef\<close> says whether \<^verbatim>\<open>mountRef.current\<close> is the host element and
  \<open>container\<close> lists that element's children. \<open>mounted\<close>, the three \<open>run_\<close> fields,
  \<open>performanceLevel\<close> and \<open>lastFrameTime\<close> are the variables closed over by the latest
  run of the initialisation effect: the flags are the values of the render that ran it.
  \<open>pendingFrames\<close> is the host's queue of requested animation frames, \<open>disposed\<close> the
  log of \<^verbatim>\<open>dispose()\<close> calls on geometries and materials, and \<open>scenesCreated\<close> counts
  the \<^verbatim>\<open>new THREE.Scene()\<close> calls.
\<close>

subsection \<open>Scene construction\<close>

definition makeOrbit :: "env \<Rightarrow> handle \<Rightarrow> nat \<Rightarrow> nat \<Rightarrow> orbitSphere" where
  "makeOrbit e h n i =
     \<lparr> geometry = h + 2 * i,
       material = h + 2 * i + 1,
       radius = 2 + random e (4 * i) * 1.5,
       angle = (real i / real n) * pi * 2,
       height = (random e (4 * i + 1) - 0.5) * 0.5,
       speed = 0.2 + random e (4 * i + 2) * 0.3,
       verticalSpeed = 0.1 + random e (4 * i + 3) * 0.2,
       position_x = 0, position_y = 0, position_z = 0,
       rotation_y = 0 \<rparr>"

definition makeOrbits :: "env \<Rightarrow> handle \<Rightarrow> nat \<Rightarrow> orbitSphere list" where
  "makeOrbits e h n = map (makeOrbit e h n) [0..<n]"

definition requestAnimationFrame :: "hero \<Rightarrow> hero" where
  "requestAnimationFrame st =
     st\<lparr> frameRef := Some (Suc (nextFrameId st)),
         pendingFrames := pendingFrames st @ [Suc (nextFrameId st)],
         nextFrameId := Suc (nextFrameId st) \<rparr>"

definition cancelAnimationFrame :: "nat \<Rightarrow> hero \<Rightarrow> hero" where
  "cancelAnimationFrame i st = st\<lparr> pendingFrames := removeAll i (pendingFrames st) \<rparr>"

subsection \<open>The frame callback\<close>

definition updateSphere :: "real \<Rightarrow> orbitSphere \<Rightarrow> orbitSphere" where
  "updateSphere deltaTime sphere =
     (let angle' = angle sphere + speed sphere * deltaTime;
          height' = height sphere + verticalSpeed sphere * deltaTime * 0.5
      in sphere\<lparr> angle := angle',
                 height := height',
                 position_x := cos angle' * radius sphere,
                 position_z := sin angle' * radius sphere,
                 position_y := sin height' * 0.3,
                 rotation_y := rotation_y sphere + deltaTime * 0.5 \<rparr>)"

definition rotateCore :: "real \<Rightarrow> coreMesh \<Rightarrow> coreMesh" where
  "rotateCore deltaTime c =
     c\<lparr> core_rotation_y := core_rotation_y c + deltaTime * 0.2,
        core_rotation_x := core_rotation_x c + deltaTime * 0.1 \<rparr>"

definition motion :: "real \<Rightarrow> three \<Rightarrow> three" where
  "motion deltaTime w =
     w\<lparr> orbits := map (updateSphere deltaTime) (orbits w),
        core := rotateCore deltaTime (core w) \<rparr>"

definition render :: "three \<Rightarrow> three" where
  "render w = w\<lparr> renderCalls := Suc (renderCalls w) \<rparr>"

text \<open>
  \<open>animate currentTime clockDelta\<close>: \<open>clockDelta\<close> is what \<^verbatim>\<open>clockRef.current.getDelta()\<close>
  returns if this call reaches it (the clock is library code reading the host's time).
\<close>

definition animate :: "real \<Rightarrow> real \<Rightarrow> hero \<Rightarrow> hero" where
  "animate currentTime clockDelta st =
     (if \<not> mounted st \<or> \<not> run_isVisible st \<or> run_paused st
      then requestAnimationFrame st
      else requestAnimationFrame
        (if currentTime - lastFrameTime st \<ge> frameInterval (performanceLevel st)
         then (let deltaTime = clockDelta
               in st\<lparr> refs := map_option
                           (\<lambda>w. render (if \<not> run_prefersReducedMotion st
                                         then motion deltaTime w else w))
                           (refs st),
                       lastFrameTime := currentTime \<rparr>)
         else st))"

subsection \<open>The initialisation effect and its cleanup\<close>

definition setError :: "js_error \<Rightarrow> hero \<Rightarrow> hero" where
  "setError err st = (if mounted st then st\<lparr> error := Some err \<rparr> else st)"

text \<open>
  The body of \<^verbatim>\<open>initThreeJS\<close>, with the \<^verbatim>\<open>catch\<close> clause as \<open>setError\<close>. It is
  applied to the state in which the awaited import settles, and reads \<open>mounted\<close> from
  that state as the source reads its variable then. In \<open>effect\<close> below the import
  settles at once; a cleanup that runs while it is pending is taken up further down.
\<close>

definition initThreeJS :: "env \<Rightarrow> hero \<Rightarrow> hero" where
  "initThreeJS e st =
     (if \<not> webGL e then setError WebGLNotSupported st
      else if \<not> importOk e then setError ImportRejected st
      else if \<not> mounted st then st
      else if \<not> mountRef st then setError TypeError (st\<lparr> scenesCreated := Suc (scenesCreated st) \<rparr>)
      else if \<not> rendererOk e
        then setError ContextCreationFailed (st\<lparr> scenesCreated := Suc (scenesCreated st) \<rparr>)
      else
        (let level = getPerformanceLevel (hardwareConcurrency e) (deviceMemory e);
             h = nextHandle st;
             w = \<lparr> antialias = (level = High),
                   domElement = h,
                   rendererDisposals = 0,
                   renderCalls = 0,
                   core = \<lparr> coreGeometry = h + 1, coreMaterial = h + 2,
                            core_rotation_x = 0, core_rotation_y = 0 \<rparr>,
                   orbits = makeOrbits e (h + 3) (orbitCount level) \<rparr>
         in animate 0 0
              (st\<lparr> scenesCreated := Suc (scenesCreated st),
                   nextHandle := h + 3 + 2 * orbitCount level,
                   refs := Some w,
                   container := container st @ [h],
                   performanceLevel := level,
                   lastFrameTime := 0 \<rparr>)))"

definition effect :: "env \<Rightarrow> hero \<Rightarrow> hero" where
  "effect e st =
     (if \<not> mountRef st then st\<lparr> hasCleanup := False \<rparr>
      else initThreeJS e
             (st\<lparr> mounted := True,
                  run_paused := paused st,
                  run_prefersReducedMotion := prefersReducedMotion st,
                  run_isVisible := isVisible st,
                  hasCleanup := True \<rparr>))"

text \<open>
  The scene graph handed to \<^verbatim>\<open>traverse\<close>. An \<^verbatim>\<open>Object3D\<close> has an optional
  geometry, a material that is absent, single or an array, and children; the library's
  \<^verbatim>\<open>traverse(callback)\<close> calls the callback on the object and then traverses each
  child in order.
\<close>

datatype materialSlot = NoMaterial | SingleMaterial handle | MaterialArray "handle list"

datatype object3d =
  Object3D (objGeometry: "handle option") (objMaterial: materialSlot) (children: "object3d list")

fun traverse :: "(object3d \<Rightarrow> 's \<Rightarrow> 's) \<Rightarrow> object3d \<Rightarrow> 's \<Rightarrow> 's" where
  "traverse callback (Object3D g m cs) s =
     fold (traverse callback) cs (callback (Object3D g m cs) s)"

definition light :: object3d where
  "light = Object3D None NoMaterial []"

definition coreObject :: "coreMesh \<Rightarrow> object3d" where
  "coreObject c = Object3D (Some (coreGeometry c)) (SingleMaterial (coreMaterial c)) []"

definition sphereObject :: "orbitSphere \<Rightarrow> object3d" where
  "sphereObject s = Object3D (Some (geometry s)) (SingleMaterial (material s)) []"

definition sceneGraph :: "three \<Rightarrow> object3d" where
  "sceneGraph w =
     Object3D None NoMaterial ([light, light, coreObject (core w)] @ map sphereObject (orbits w))"

text \<open>The callback of the cleanup: each \<^verbatim>\<open>dispose()\<close> call is appended to the log.\<close>

definition disposeObject :: "object3d \<Rightarrow> handle list \<Rightarrow> handle list" where
  "disposeObject object calls =
     (let calls1 = (case objGeometry object of None \<Rightarrow> calls | Some g \<Rightarrow> calls @ [g])
      in case objMaterial object of
           NoMaterial \<Rightarrow> calls1
         | MaterialArray ms \<Rightarrow> fold (\<lambda>material l. l @ [material]) ms calls1
         | SingleMaterial m \<Rightarrow> calls1 @ [m])"

text \<open>\<^verbatim>\<open>removeChild\<close> throws a \<^verbatim>\<open>NotFoundError\<close> when the node is not a child.\<close>

definition removeChild :: "handle \<Rightarrow> handle list \<Rightarrow> js_error + handle list" where
  "removeChild c cs = (if c \<in> set cs then Inr (remove1 c cs) else Inl NotFoundError)"

definition cleanup :: "hero \<Rightarrow> js_error + hero" where
  "cleanup st0 =
     (let st1 = st0\<lparr> mounted := False \<rparr>;
          st2 = (case frameRef st1 of None \<Rightarrow> st1 | Some i \<Rightarrow> cancelAnimationFrame i st1);
          st3 = (case refs st2 of
                   None \<Rightarrow> Inr st2
                 | Some w \<Rightarrow>
                     if mountRef st2
                     then (case removeChild (domElement w) (container st2) of
                             Inl err \<Rightarrow> Inl err
                           | Inr cs \<Rightarrow>
                               Inr (st2\<lparr> container := cs,
                                        refs := Some (w\<lparr> rendererDisposals :=
                                                          Suc (rendererDisposals w) \<rparr>) \<rparr>))
                     else Inr st2)
      in case st3 of
           Inl err \<Rightarrow> Inl err
         | Inr st \<Rightarrow>
             Inr (case refs st of
                    None \<Rightarrow> st
                  | Some w \<Rightarrow>
                      st\<lparr> disposed := traverse disposeObject (sceneGraph w) (disposed st) \<rparr>))"

subsection \<open>The component's life\<close>

text \<open>
  The state the first render leaves for the effects: the host element is attached and
  empty, nothing has been created. (\<open>performanceLevel\<close> and \<open>lastFrameTime\<close> are not yet
  declared at this point; the values here are never read.)
\<close>

definition initial :: "bool \<Rightarrow> bool \<Rightarrow> hero" where
  "initial p r =
     \<lparr> paused = p, prefersReducedMotion = r, isVisible = True, error = None,
       mountRef = True, container = [], frameRef = None, refs = None,
       mounted = False, run_paused = p, run_prefersReducedMotion = r, run_isVisible = True,
       performanceLevel = Low, lastFrameTime = 0, hasCleanup = False,
       pendingFrames = [], nextFrameId = 0, nextHandle = 0, disposed = [],
       scenesCreated = 0 \<rparr>"

definition mount :: "bool \<Rightarrow> bool \<Rightarrow> env \<Rightarrow> hero" where
  "mount p r e = effect e (initial p r)"

text \<open>
  A later render with the props \<open>p\<close>, \<open>r\<close> and the visibility state \<open>v\<close>. The render
  throws when \<open>error\<close> is set. The effect's dependencies are \<open>paused\<close>,
  \<open>prefersReducedMotion\<close>, \<open>isVisible\<close> and the memoised \<open>getPerformanceLevel\<close>
  (which never changes): when one differs from the previous render, the framework runs
  the cleanup returned by the previous run and then the effect again. \<open>rerender\<close> is the
  run in which the awaited import settles before anything else reaches the component, so
  that the new initialisation completes (or fails) within it.
\<close>

definition rerender :: "bool \<Rightarrow> bool \<Rightarrow> bool \<Rightarrow> env \<Rightarrow> hero \<Rightarrow> js_error + hero" where
  "rerender p r v e st =
     (case error st of
        Some err \<Rightarrow> Inl err
      | None \<Rightarrow>
          (let st1 = st\<lparr> paused := p, prefersReducedMotion := r, isVisible := v \<rparr>
           in if p = paused st \<and> r = prefersReducedMotion st \<and> v = isVisible st
              then Inr st1
              else (case (if hasCleanup st then cleanup st1 else Inr st1) of
                      Inl err \<Rightarrow> Inl err
                    | Inr st2 \<Rightarrow> Inr (effect e st2))))"

text \<open>
  \<^verbatim>\<open>initThreeJS\<close> is asynchronous: the effect returns its cleanup while the import
  is still awaited, and the refs are written only after it. \<open>effectBegin\<close> is the effect
  up to that point on a host with graphics support, and \<open>rerenderBegin\<close> the render that
  leaves the new initialisation pending there; \<open>initThreeJS\<close> applied to such a state is
  the rest of the initialisation, run when the import settles.
\<close>

definition effectBegin :: "hero \<Rightarrow> hero" where
  "effectBegin st =
     (if \<not> mountRef st then st\<lparr> hasCleanup := False \<rparr>
      else st\<lparr> mounted := True,
              run_paused := paused st,
              run_prefersReducedMotion := prefersReducedMotion st,
              run_isVisible := isVisible st,
              hasCleanup := True \<rparr>)"


text \<open>
  The host runs a requested frame: the request leaves the queue and \<open>animate\<close> is called
  with the frame's timestamp.
\<close>

definition fire :: "real \<Rightarrow> real \<Rightarrow> hero \<Rightarrow> hero" where
  "fire currentTime clockDelta st =
     (case pendingFrames st of
        [] \<Rightarrow> st
      | i # rest \<Rightarrow> animate currentTime clockDelta (st\<lparr> pendingFrames := rest \<rparr>))"

fun frames :: "(real \<times> real) list \<Rightarrow> hero \<Rightarrow> hero" where
  "frames [] st = st"
| "frames ((currentTime, clockDelta) # ticks) st = frames ticks (fire currentTime clockDelta st)"

subsection \<open>Observations\<close>

definition renders :: "hero \<Rightarrow> nat" where
  "renders st = (case refs st of None \<Rightarrow> 0 | Some w \<Rightarrow> renderCalls w)"

definition spheres :: "hero \<Rightarrow> orbitSphere list" where
  "spheres st = (case refs st of None \<Rightarrow> [] | Some w \<Rightarrow> orbits w)"

definition position :: "orbitSphere \<Rightarrow> real \<times> real \<times> real" where
  "position s = (position_x s, position_y s, position_z s)"

text \<open>A host with working graphics whose random numbers are all one half.\<close>

definition host :: "real option \<Rightarrow> real option \<Rightarrow> env" where
  "host hc dm =
     \<lparr> webGL = True, importOk = True, rendererOk = True,
       hardwareConcurrency = hc, deviceMemory = dm, random = (\<lambda>_. 1 / 2) \<rparr>"

text \<open>
  The timestamps of the frames, among those the host runs in turn, on which the renderer
  was called; and lists of timestamps whose neighbours are at least \<open>gap\<close> apart.
\<close>

fun renderTimes :: "(real \<times> real) list \<Rightarrow> hero \<Rightarrow> real list" where
  "renderTimes [] st = []"
| "renderTimes ((currentTime, clockDelta) # ticks) st =
     (if renders st < renders (fire currentTime clockDelta st)
      then currentTime # renderTimes ticks (fire currentTime clockDelta st)
      else renderTimes ticks (fire currentTime clockDelta st))"

fun spaced :: "real \<Rightarrow> real list \<Rightarrow> bool" where
  "spaced gap (a # b # ts) = (gap \<le> b - a \<and> spaced gap (b # ts))"
| "spaced gap ts = True"

text \<open>
  The objects of a scene graph, parents before children; the geometry and material
  handles one object holds; those of a whole graph; and those reachable from
  \<^verbatim>\<open>sceneRef\<close>.
\<close>

fun objects :: "object3d \<Rightarrow> object3d list" where
  "objects (Object3D g m cs) = Object3D g m cs # concat (map objects cs)"

definition objectResources :: "object3d \<Rightarrow> handle list" where
  "objectResources object =
     (case objGeometry object of None \<Rightarrow> [] | Some g \<Rightarrow> [g])
     @ (case objMaterial object of
          NoMaterial \<Rightarrow> [] | SingleMaterial m \<Rightarrow> [m] | MaterialArray ms \<Rightarrow> ms)"

definition graphResources :: "object3d \<Rightarrow> handle list" where
  "graphResources g = concat (map objectResources (objects g))"

definition liveResources :: "hero \<Rightarrow> handle list" where
  "liveResources st = (case refs st of None \<Rightarrow> [] | Some w \<Rightarrow> graphResources (sceneGraph w))"

section \<open>Properties\<close>

subsection \<open>Quality tier\<close>

lemma getPerformanceLevel_present:
  "getPerformanceLevel (Some h) (Some m) = (if h \<le> 4 \<or> m \<le> 4 then Low else High)"
  by (simp add: getPerformanceLevel_def or_default_def)

lemma getPerformanceLevel_absent:
  "getPerformanceLevel None dm = Low" "getPerformanceLevel hc None = Low"
  by (simp_all add: getPerformanceLevel_def or_default_def)

lemma frameInterval_pos: "0 < frameInterval l"
  by (simp add: frameInterval_def targetFPS_def)

lemma animate_zero: "lastFrameTime st = 0 \<Longrightarrow> animate 0 d st = requestAnimationFrame st"
  using frameInterval_pos [of "performanceLevel st"] by (simp add: animate_def)

text \<open>The state a successful initialisation leaves.\<close>

lemma initThreeJS_success:
  assumes "webGL e" "importOk e" "rendererOk e" "mountRef st" "mounted st"
  shows "initThreeJS e st =
     requestAnimationFrame
       (st\<lparr> scenesCreated := Suc (scenesCreated st),
            nextHandle := nextHandle st + 3
               + 2 * orbitCount (getPerformanceLevel (hardwareConcurrency e) (deviceMemory e)),
            refs := Some \<lparr> antialias =
                     (getPerformanceLevel (hardwareConcurrency e) (deviceMemory e) = High),
                   domElement = nextHandle st,
                   rendererDisposals = 0,
                   renderCalls = 0,
                   core = \<lparr> coreGeometry = nextHandle st + 1, coreMaterial = nextHandle st + 2,
                            core_rotation_x = 0, core_rotation_y = 0 \<rparr>,
                   orbits = makeOrbits e (nextHandle st + 3)
                     (orbitCount (getPerformanceLevel (hardwareConcurrency e) (deviceMemory e))) \<rparr>,
            container := container st @ [nextHandle st],
            performanceLevel := getPerformanceLevel (hardwareConcurrency e) (deviceMemory e),
            lastFrameTime := 0 \<rparr>)"
  using assms by (simp add: initThreeJS_def Let_def animate_zero)

lemma effect_success_level:
  assumes "webGL e" "importOk e" "rendererOk e" "mountRef st"
  shows "performanceLevel (effect e st) = getPerformanceLevel (hardwareConcurrency e) (deviceMemory e)"
    and "length (spheres (effect e st)) =
           orbitCount (getPerformanceLevel (hardwareConcurrency e) (deviceMemory e))"
    and "map_option antialias (refs (effect e st)) =
           Some (getPerformanceLevel (hardwareConcurrency e) (deviceMemory e) = High)"
  using assms
  by (simp_all add: effect_def initThreeJS_success requestAnimationFrame_def spheres_def
      makeOrbits_def)

lemma fire_performanceLevel: "performanceLevel (fire t d st) = performanceLevel st"
  by (simp add: fire_def animate_def requestAnimationFrame_def split: list.splits)

lemma frames_performanceLevel: "performanceLevel (frames ticks st) = performanceLevel st"
  by (induction ticks arbitrary: st) (auto simp: fire_performanceLevel)

text \<open>
  C3. When both capability signals are present, a processor count of at most 4 or a
  device memory of at most 4 gives the low tier (8 orbiting spheres, 30 frames per second,
  no antialiasing) and anything else the high tier (12 spheres, 60 frames per second,
  antialiasing). The tier is computed by the initialisation and no frame changes it.
\<close>

theorem quality_tier_resolution:
  assumes "webGL e" and "importOk e" and "rendererOk e" and "mountRef st"
    and "hardwareConcurrency e = Some h" and "deviceMemory e = Some m"
  shows "getPerformanceLevel (Some h) (Some m) = (if h \<le> 4 \<or> m \<le> 4 then Low else High)
     \<and> (if h \<le> 4 \<or> m \<le> 4
        then performanceLevel (effect e st) = Low
           \<and> length (spheres (effect e st)) = 8
           \<and> targetFPS (performanceLevel (effect e st)) = 30
           \<and> frameInterval (performanceLevel (effect e st)) = 1000 / 30
           \<and> map_option antialias (refs (effect e st)) = Some False
        else performanceLevel (effect e st) = High
           \<and> length (spheres (effect e st)) = 12
           \<and> targetFPS (performanceLevel (effect e st)) = 60
           \<and> frameInterval (performanceLevel (effect e st)) = 1000 / 60
           \<and> map_option antialias (refs (effect e st)) = Some True)
     \<and> performanceLevel (frames ticks (effect e st)) = performanceLevel (effect e st)"
  using assms
  by (simp add: effect_success_level getPerformanceLevel_present frames_performanceLevel
      orbitCount_def targetFPS_def frameInterval_def)

theorem quality_tier_resolution_witness:
  "getPerformanceLevel (Some 8) (Some 2) = Low
   \<and> length (spheres (mount False False (host (Some 8) (Some 2)))) = 8
   \<and> frameInterval (performanceLevel (mount False False (host (Some 8) (Some 2)))) = 1000 / 30
   \<and> map_option antialias (refs (mount False False (host (Some 8) (Some 2)))) = Some False"
proof -
  have e: "webGL (host (Some 8) (Some 2))" "importOk (host (Some 8) (Some 2))"
    "rendererOk (host (Some 8) (Some 2))" "hardwareConcurrency (host (Some 8) (Some 2)) = Some 8"
    "deviceMemory (host (Some 8) (Some 2)) = Some 2"
    by (simp_all add: host_def)
  have m: "mountRef (initial False False)"
    by (simp add: initial_def)
  show ?thesis
    using quality_tier_resolution [OF e(1-3) m e(4,5), of "[]"]
    by (simp add: mount_def frameInterval_def targetFPS_def)
qed

text \<open>
  C10. A capability signal the host does not report counts as 4, so the tier is low
  (8 spheres, 30 frames per second, no antialiasing) as soon as one of the two is absent.
\<close>

theorem missing_signal_gives_low:
  assumes "hardwareConcurrency e = None \<or> deviceMemory e = None"
    and "webGL e" and "importOk e" and "rendererOk e" and "mountRef st"
  shows "or_default None 4 = 4
     \<and> getPerformanceLevel None (deviceMemory e) = getPerformanceLevel (Some 4) (deviceMemory e)
     \<and> getPerformanceLevel (hardwareConcurrency e) None
         = getPerformanceLevel (hardwareConcurrency e) (Some 4)
     \<and> getPerformanceLevel (hardwareConcurrency e) (deviceMemory e) = Low
     \<and> performanceLevel (effect e st) = Low
     \<and> length (spheres (effect e st)) = 8
     \<and> targetFPS (performanceLevel (effect e st)) = 30
     \<and> map_option antialias (refs (effect e st)) = Some False"
proof -
  have low: "getPerformanceLevel (hardwareConcurrency e) (deviceMemory e) = Low"
    using assms(1) by (auto simp: getPerformanceLevel_absent)
  have four: "getPerformanceLevel None (deviceMemory e) = getPerformanceLevel (Some 4) (deviceMemory e)"
    "getPerformanceLevel (hardwareConcurrency e) None
       = getPerformanceLevel (hardwareConcurrency e) (Some 4)"
    by (simp_all add: getPerformanceLevel_def or_default_def)
  show ?thesis
    using assms(2-) low four
    by (simp add: effect_success_level orbitCount_def targetFPS_def or_default_def)
qed

theorem missing_signal_gives_low_witness:
  "getPerformanceLevel (Some 16) None = Low
   \<and> length (spheres (mount False False (host (Some 16) None))) = 8
   \<and> map_option antialias (refs (mount False False (host (Some 16) None))) = Some False"
proof -
  have e: "hardwareConcurrency (host (Some 16) None) = None
      \<or> deviceMemory (host (Some 16) None) = None"
    "webGL (host (Some 16) None)" "importOk (host (Some 16) None)"
    "rendererOk (host (Some 16) None)"
    by (simp_all add: host_def)
  have v: "hardwareConcurrency (host (Some 16) None) = Some 16"
    "deviceMemory (host (Some 16) None) = None"
    by (simp_all add: host_def)
  have m: "mountRef (initial False False)"
    by (simp add: initial_def)
  show ?thesis
    using missing_signal_gives_low [OF e m]
    by (simp add: mount_def v getPerformanceLevel_present)
qed

subsection \<open>The frame callback, case by case\<close>

lemma animate_idle:
  "\<not> mounted st \<or> \<not> run_isVisible st \<or> run_paused st \<Longrightarrow> animate t d st = requestAnimationFrame st"
  by (auto simp: animate_def)

lemma animate_early:
  "t - lastFrameTime st < frameInterval (performanceLevel st) \<Longrightarrow> animate t d st = requestAnimationFrame st"
  by (auto simp: animate_def)

lemma animate_due:
  assumes "mounted st" "run_isVisible st" "\<not> run_paused st"
    and "frameInterval (performanceLevel st) \<le> t - lastFrameTime st"
  shows "animate t d st = requestAnimationFrame
     (st\<lparr> refs := map_option (\<lambda>w. render (if \<not> run_prefersReducedMotion st then motion d w else w)) (refs st),
          lastFrameTime := t \<rparr>)"
  using assms by (simp add: animate_def)

lemma renders_requestAnimationFrame [simp]: "renders (requestAnimationFrame st) = renders st"
  by (simp add: renders_def requestAnimationFrame_def)

lemma animate_cases:
  "animate t d st = requestAnimationFrame st \<or>
   (mounted st \<and> run_isVisible st \<and> \<not> run_paused st \<and>
    frameInterval (performanceLevel st) \<le> t - lastFrameTime st \<and>
    animate t d st = requestAnimationFrame
     (st\<lparr> refs := map_option (\<lambda>w. render (if \<not> run_prefersReducedMotion st then motion d w else w)) (refs st),
          lastFrameTime := t \<rparr>))"
  by (auto simp: animate_def)

lemma fire_step:
  "(renders (fire t d st) = renders st \<and> (refs st \<noteq> None \<longrightarrow> lastFrameTime (fire t d st) = lastFrameTime st))
   \<or> (renders (fire t d st) = Suc (renders st) \<and> frameInterval (performanceLevel st) \<le> t - lastFrameTime st
        \<and> lastFrameTime (fire t d st) = t)"
  by (auto simp: fire_def animate_def requestAnimationFrame_def renders_def render_def motion_def
      split: list.splits option.splits)

lemma fire_refs_None: "refs st = None \<Longrightarrow> refs (fire t d st) = None"
  by (auto simp: fire_def animate_def requestAnimationFrame_def split: list.splits)

lemma fire_refs_Some: "refs st \<noteq> None \<Longrightarrow> refs (fire t d st) \<noteq> None"
  by (auto simp: fire_def animate_def requestAnimationFrame_def split: list.splits)

lemma renderTimes_no_scene: "refs st = None \<Longrightarrow> renderTimes ticks st = []"
proof (induction ticks arbitrary: st)
  case Nil
  then show ?case by simp
next
  case (Cons a ticks)
  obtain t d where a: "a = (t, d)" by (cases a)
  have "refs (fire t d st) = None" using Cons.prems by (rule fire_refs_None)
  then show ?case using Cons.IH [of "fire t d st"] Cons.prems
    by (simp add: a renders_def)
qed

lemma spaced_renderTimes:
  "refs st \<noteq> None \<Longrightarrow> spaced (frameInterval (performanceLevel st)) (lastFrameTime st # renderTimes ticks st)"
proof (induction ticks arbitrary: st)
  case Nil
  then show ?case by simp
next
  case (Cons a ticks)
  obtain t d where a: "a = (t, d)" by (cases a)
  let ?st = "fire t d st"
  have r: "refs ?st \<noteq> None" using Cons.prems by (rule fire_refs_Some)
  have ih: "spaced (frameInterval (performanceLevel st)) (lastFrameTime ?st # renderTimes ticks ?st)"
    using Cons.IH [OF r] by (simp add: fire_performanceLevel)
  from fire_step [of t d st] show ?case
  proof
    assume "renders ?st = renders st \<and> (refs st \<noteq> None \<longrightarrow> lastFrameTime ?st = lastFrameTime st)"
    then show ?thesis using ih Cons.prems by (simp add: a)
  next
    assume "renders ?st = Suc (renders st) \<and> frameInterval (performanceLevel st) \<le> t - lastFrameTime st
        \<and> lastFrameTime ?st = t"
    then show ?thesis using ih by (simp add: a)
  qed
qed

lemma spaced_tl: "spaced gap (a # ts) \<Longrightarrow> spaced gap ts"
  by (cases ts) auto

lemma renderTimes_spaced: "spaced (frameInterval (performanceLevel st)) (renderTimes ticks st)"
proof (cases "refs st")
  case None
  then show ?thesis by (simp add: renderTimes_no_scene)
next
  case (Some w)
  then show ?thesis using spaced_renderTimes [of st ticks] spaced_tl by blast
qed

lemma two_ticks:
  assumes "mounted st" "run_isVisible st" "\<not> run_paused st" "refs st \<noteq> None" "pendingFrames st \<noteq> []"
   and "performanceLevel st = Low"
  shows "renders (fire (t + 5) d2 (fire t d1 st)) =
     (if 1000 / 30 \<le> t + 5 - lastFrameTime st then Suc (renders st) else renders st)"
  using assms
  by (auto simp: fire_def animate_def requestAnimationFrame_def renders_def render_def motion_def
      frameInterval_def targetFPS_def
      split: list.splits option.splits)


subsection \<open>A mounted component on the sample host\<close>

lemma mount_host:
  "mounted (mount p r (host hc dm))"
  "run_isVisible (mount p r (host hc dm))"
  "run_paused (mount p r (host hc dm)) = p"
  "run_prefersReducedMotion (mount p r (host hc dm)) = r"
  "refs (mount p r (host hc dm)) \<noteq> None"
  "pendingFrames (mount p r (host hc dm)) = [1]"
  "lastFrameTime (mount p r (host hc dm)) = 0"
  "performanceLevel (mount p r (host hc dm)) = getPerformanceLevel hc dm"
  "renders (mount p r (host hc dm)) = 0"
  "scenesCreated (mount p r (host hc dm)) = 1"
  by (simp_all add: mount_def effect_def initial_def host_def initThreeJS_success
      requestAnimationFrame_def renders_def)

subsection \<open>Idle ticks\<close>

text \<open>
  C1, as the code has it. A frame that arrives while the component is unmounted, not
  visible or paused changes nothing in the scene and does not call the renderer: the
  callback only requests the next frame and returns.
\<close>

theorem idle_tick_only_reschedules:
  assumes "\<not> mounted st \<or> \<not> run_isVisible st \<or> run_paused st"
  shows "refs (animate t d st) = refs st
     \<and> renders (animate t d st) = renders st
     \<and> lastFrameTime (animate t d st) = lastFrameTime st
     \<and> frameRef (animate t d st) = Some (Suc (nextFrameId st))
     \<and> pendingFrames (animate t d st) = pendingFrames st @ [Suc (nextFrameId st)]"
  using assms by (simp add: animate_idle) (simp add: requestAnimationFrame_def)

theorem idle_tick_only_reschedules_witness:
  "run_paused (mount True False (host None None))
   \<and> renders (animate 1000 (1 / 60) (mount True False (host None None))) = 0
   \<and> pendingFrames (animate 1000 (1 / 60) (mount True False (host None None))) = [1, 2]"
proof -
  have p: "\<not> mounted (mount True False (host None None))
      \<or> \<not> run_isVisible (mount True False (host None None))
      \<or> run_paused (mount True False (host None None))"
    by (simp add: mount_host)
  have n: "nextFrameId (mount True False (host None None)) = 1"
    by (simp add: mount_def effect_def initial_def host_def initThreeJS_success
      requestAnimationFrame_def)
  show ?thesis
    using idle_tick_only_reschedules [OF p, of 1000 "1 / 60"]
    by (simp add: mount_host n)
qed

lemma fire_idle:
  "\<not> mounted st \<or> \<not> run_isVisible st \<or> run_paused st \<Longrightarrow> refs (fire t d st) = refs st"
  by (auto simp: fire_def animate_def requestAnimationFrame_def split: list.splits)

lemma fire_idle_renders:
  "\<not> mounted st \<or> \<not> run_isVisible st \<or> run_paused st \<Longrightarrow> renders (fire t d st) = renders st"
  by (simp add: renders_def fire_idle)

text \<open>
  C1 as stated asks for a render call on every paused tick; the paused component on the
  sample host gets none on the frame at 1000 ms.
\<close>

theorem paused_tick_renders_counterexample:
  "run_paused (mount True False (host None None))
   \<and> renders (fire 1000 (1 / 60) (mount True False (host None None)))
       \<noteq> Suc (renders (mount True False (host None None)))"
  by (simp add: mount_host fire_idle_renders)

subsection \<open>Frame pacing\<close>

text \<open>
  C4, as the code has it. A frame that comes less than the tier's frame interval after the
  last rendered one does not call the renderer and still requests the next frame; over
  any sequence of frames the rendered timestamps are at least one interval apart; and two
  frames 5 ms apart at the low tier render at most once, exactly once when an interval
  has passed since the last rendered frame by the time of the second.
\<close>

theorem frame_pacing:
  "(t - lastFrameTime st < frameInterval (performanceLevel st) \<longrightarrow>
       refs (animate t d st) = refs st
     \<and> renders (animate t d st) = renders st
     \<and> pendingFrames (animate t d st) = pendingFrames st @ [Suc (nextFrameId st)])
   \<and> spaced (frameInterval (performanceLevel st)) (renderTimes ticks st)
   \<and> (mounted st \<and> run_isVisible st \<and> \<not> run_paused st \<and> refs st \<noteq> None
        \<and> pendingFrames st \<noteq> [] \<and> performanceLevel st = Low \<longrightarrow>
      renders (fire (c + 5) d2 (fire c d1 st)) =
        (if 1000 / 30 \<le> c + 5 - lastFrameTime st then Suc (renders st) else renders st))"
proof (intro conjI impI)
  assume "t - lastFrameTime st < frameInterval (performanceLevel st)"
  then have a: "animate t d st = requestAnimationFrame st" by (rule animate_early)
  show "refs (animate t d st) = refs st" "renders (animate t d st) = renders st"
    "pendingFrames (animate t d st) = pendingFrames st @ [Suc (nextFrameId st)]"
    by (simp_all add: a) (simp_all add: requestAnimationFrame_def)
next
  show "spaced (frameInterval (performanceLevel st)) (renderTimes ticks st)"
    by (rule renderTimes_spaced)
next
  assume "mounted st \<and> run_isVisible st \<and> \<not> run_paused st \<and> refs st \<noteq> None
        \<and> pendingFrames st \<noteq> [] \<and> performanceLevel st = Low"
  then show "renders (fire (c + 5) d2 (fire c d1 st)) =
        (if 1000 / 30 \<le> c + 5 - lastFrameTime st then Suc (renders st) else renders st)"
    by (simp add: two_ticks)
qed

theorem frame_pacing_witness:
  "renders (fire 105 (1 / 200) (fire 100 0 (mount False False (host None None)))) = 1
   \<and> spaced (1000 / 30) (renderTimes [(100, 0), (105, 1 / 200)] (mount False False (host None None)))
   \<and> renders (animate 20 0 (mount False False (host None None))) = 0"
  using frame_pacing [of 20 "mount False False (host None None)" 0
      "[(100, 0), (105, 1 / 200)]" 100 "1 / 200" 0]
  by (simp add: mount_host getPerformanceLevel_absent frameInterval_def targetFPS_def)

subsection \<open>Reduced motion\<close>

lemma fire_reduced:
  assumes "run_prefersReducedMotion st"
  shows "spheres (fire t d st) = spheres st"
    and "map_option core (refs (fire t d st)) = map_option core (refs st)"
    and "run_prefersReducedMotion (fire t d st)"
  using assms
  by (auto simp: fire_def animate_def requestAnimationFrame_def spheres_def render_def
      option.map_comp comp_def
      split: list.splits option.splits)

lemma frames_reduced:
  "run_prefersReducedMotion st \<Longrightarrow>
     spheres (frames ticks st) = spheres st
   \<and> map_option core (refs (frames ticks st)) = map_option core (refs st)"
proof (induction ticks arbitrary: st)
  case Nil
  then show ?case by simp
next
  case (Cons a ticks)
  obtain t d where a: "a = (t, d)" by (cases a)
  show ?case
    using Cons.IH [of "fire t d st"] fire_reduced [OF Cons.prems, of t d]
    by (simp add: a)
qed

lemma fire_due_renders:
  assumes "mounted st" "run_isVisible st" "\<not> run_paused st" "refs st \<noteq> None"
    and "pendingFrames st \<noteq> []"
    and "frameInterval (performanceLevel st) \<le> t - lastFrameTime st"
  shows "renders (fire t d st) = Suc (renders st)"
  using assms
  by (auto simp: fire_def animate_def requestAnimationFrame_def renders_def render_def motion_def
      split: list.splits option.splits)

text \<open>
  C5. With the reduced-motion preference on, any number of frames leaves every orbiting
  sphere (its position with the rest of it) and the core's rotation as they were, and a
  frame that is due still calls the renderer.
\<close>

theorem reduced_motion_no_drift:
  assumes "run_prefersReducedMotion st"
  shows "spheres (frames ticks st) = spheres st
     \<and> map_option core (refs (frames ticks st)) = map_option core (refs st)
     \<and> (mounted st \<and> run_isVisible st \<and> \<not> run_paused st \<and> refs st \<noteq> None
          \<and> pendingFrames st \<noteq> []
          \<and> frameInterval (performanceLevel st) \<le> t - lastFrameTime st \<longrightarrow>
        renders (fire t d st) = Suc (renders st) \<and> spheres (fire t d st) = spheres st)"
  using frames_reduced [OF assms, of ticks] fire_reduced(1) [OF assms, of t d]
  by (simp add: fire_due_renders)

lemma makeOrbits_origin:
  "s \<in> set (makeOrbits e h n) \<Longrightarrow> position s = (0, 0, 0) \<and> rotation_y s = 0"
  by (auto simp: makeOrbits_def makeOrbit_def position_def)

lemma mount_host_spheres:
  "spheres (mount p r (host hc dm)) = makeOrbits (host hc dm) 3 (orbitCount (getPerformanceLevel hc dm))"
  by (simp add: mount_def effect_def initial_def host_def initThreeJS_success
      requestAnimationFrame_def spheres_def)

theorem reduced_motion_no_drift_witness:
  "spheres (frames [(100, 1 / 60), (150, 1 / 20)] (mount False True (host None None)))
     = spheres (mount False True (host None None))
   \<and> renders (fire 100 (1 / 60) (mount False True (host None None))) = 1"
  using reduced_motion_no_drift [of "mount False True (host None None)"
      "[(100, 1 / 60), (150, 1 / 20)]" 100 "1 / 60"]
  by (simp add: mount_host getPerformanceLevel_absent frameInterval_def targetFPS_def)

subsection \<open>A frame with motion\<close>

text \<open>
  C7. On a due frame with motion enabled and clock delta \<open>d\<close>, each sphere's angle grows by
  its speed times \<open>d\<close>, its vertical phase by its vertical speed times \<open>d\<close> times 0.5, its
  position becomes (cos angle * radius, sin phase * 0.3, sin angle * radius) and it turns
  about its own axis by 0.5 \<open>d\<close> whatever its orbit; radius and speeds stay; the core turns
  by 0.2 \<open>d\<close> and 0.1 \<open>d\<close> about its two axes; then the renderer is called.
\<close>

theorem motion_frame_update:
  assumes "mounted st" and "run_isVisible st" and "\<not> run_paused st"
    and "\<not> run_prefersReducedMotion st"
    and "frameInterval (performanceLevel st) \<le> t - lastFrameTime st"
    and "refs st = Some w" and "i < length (orbits w)"
  shows "length (spheres (animate t d st)) = length (orbits w)
     \<and> angle (spheres (animate t d st) ! i) = angle (orbits w ! i) + speed (orbits w ! i) * d
     \<and> height (spheres (animate t d st) ! i)
         = height (orbits w ! i) + verticalSpeed (orbits w ! i) * d * 0.5
     \<and> position (spheres (animate t d st) ! i)
         = (cos (angle (spheres (animate t d st) ! i)) * radius (orbits w ! i),
            sin (height (spheres (animate t d st) ! i)) * 0.3,
            sin (angle (spheres (animate t d st) ! i)) * radius (orbits w ! i))
     \<and> rotation_y (spheres (animate t d st) ! i) = rotation_y (orbits w ! i) + d * 0.5
     \<and> radius (spheres (animate t d st) ! i) = radius (orbits w ! i)
     \<and> speed (spheres (animate t d st) ! i) = speed (orbits w ! i)
     \<and> verticalSpeed (spheres (animate t d st) ! i) = verticalSpeed (orbits w ! i)
     \<and> map_option (core_rotation_y \<circ> core) (refs (animate t d st))
         = Some (core_rotation_y (core w) + d * 0.2)
     \<and> map_option (core_rotation_x \<circ> core) (refs (animate t d st))
         = Some (core_rotation_x (core w) + d * 0.1)
     \<and> renders (animate t d st) = Suc (renders st)"
  using assms
  by (simp add: animate_due requestAnimationFrame_def spheres_def renders_def render_def
      motion_def updateSphere_def rotateCore_def position_def Let_def)


lemma mount_host_refs:
  "refs (mount p r (host hc dm)) = Some
     \<lparr> antialias = (getPerformanceLevel hc dm = High), domElement = 0,
       rendererDisposals = 0, renderCalls = 0,
       core = \<lparr> coreGeometry = 1, coreMaterial = 2, core_rotation_x = 0, core_rotation_y = 0 \<rparr>,
       orbits = makeOrbits (host hc dm) 3 (orbitCount (getPerformanceLevel hc dm)) \<rparr>"
  by (simp add: mount_def effect_def initial_def host_def initThreeJS_success
      requestAnimationFrame_def)

lemma makeOrbits_nth:
  "i < n \<Longrightarrow> makeOrbits e h n ! i = makeOrbit e h n i"
  by (simp add: makeOrbits_def)

lemma makeOrbits_length [simp]: "length (makeOrbits e h n) = n"
  by (simp add: makeOrbits_def)

theorem motion_frame_update_witness:
  "angle (spheres (animate 100 (1 / 10) (mount False False (host None None))) ! 0) = 7 / 200
   \<and> height (spheres (animate 100 (1 / 10) (mount False False (host None None))) ! 0) = 1 / 100
   \<and> position (spheres (animate 100 (1 / 10) (mount False False (host None None))) ! 0)
       = (cos (7 / 200) * (11 / 4), sin (1 / 100) * 0.3, sin (7 / 200) * (11 / 4))
   \<and> renders (animate 100 (1 / 10) (mount False False (host None None))) = 1"
proof -
  let ?S = "mount False False (host None None)"
  let ?w = "\<lparr> antialias = False, domElement = 0,
       rendererDisposals = 0, renderCalls = 0,
       core = \<lparr> coreGeometry = 1, coreMaterial = 2, core_rotation_x = 0, core_rotation_y = 0 \<rparr>,
       orbits = makeOrbits (host None None) 3 8 \<rparr>"
  have h: "mounted ?S" "run_isVisible ?S" "\<not> run_paused ?S" "\<not> run_prefersReducedMotion ?S"
    "frameInterval (performanceLevel ?S) \<le> 100 - lastFrameTime ?S"
    by (simp_all add: mount_host getPerformanceLevel_absent frameInterval_def targetFPS_def)
  have w: "refs ?S = Some ?w"
    by (simp add: mount_host_refs getPerformanceLevel_absent orbitCount_def)
  have i: "0 < length (orbits ?w)"
    by simp
  have v: "angle (orbits ?w ! 0) = 0" "speed (orbits ?w ! 0) = 7 / 20"
    "height (orbits ?w ! 0) = 0" "verticalSpeed (orbits ?w ! 0) = 1 / 5"
    "radius (orbits ?w ! 0) = 11 / 4"
    by (simp_all add: makeOrbits_nth makeOrbit_def host_def)
  note m = motion_frame_update [OF h w i, of "1 / 10", unfolded v]
  have a: "angle (spheres (animate 100 (1 / 10) ?S) ! 0) = 7 / 200"
    using m by simp
  have b: "height (spheres (animate 100 (1 / 10) ?S) ! 0) = 1 / 100"
    using m by simp
  have c: "position (spheres (animate 100 (1 / 10) ?S) ! 0)
       = (cos (7 / 200) * (11 / 4), sin (1 / 100) * 0.3, sin (7 / 200) * (11 / 4))"
    using m unfolding a b by simp
  have d: "renders (animate 100 (1 / 10) ?S) = 1"
    using m by (simp add: mount_host)
  show ?thesis
    using a b c d by simp
qed

subsection \<open>Traversal and teardown\<close>

lemma fold_traverse:
  assumes "\<And>c s. c \<in> set cs \<Longrightarrow> traverse f c s = fold f (objects c) s"
  shows "fold (traverse f) cs s = fold f (concat (map objects cs)) s"
  using assms by (induction cs arbitrary: s) simp_all

lemma traverse_fold: "traverse f g s = fold f (objects g) s"
proof (induction g arbitrary: s)
  case (Object3D geo mat cs)
  have "fold (traverse f) cs s' = fold f (concat (map objects cs)) s'" for s'
    by (rule fold_traverse) (rule Object3D.IH)
  then show ?case by simp
qed

lemma fold_snoc: "fold (\<lambda>x l. l @ [x]) xs l = l @ xs"
  by (induction xs arbitrary: l) simp_all

lemma disposeObject_appends: "disposeObject object calls = calls @ objectResources object"
  by (simp add: disposeObject_def objectResources_def fold_snoc
      split: option.splits materialSlot.splits)

lemma fold_disposeObject:
  "fold disposeObject os calls = calls @ concat (map objectResources os)"
  by (induction os arbitrary: calls) (simp_all add: disposeObject_appends)

lemma traverse_disposeObject:
  "traverse disposeObject g calls = calls @ graphResources g"
  by (simp add: traverse_fold fold_disposeObject graphResources_def)

lemma objects_sceneGraph:
  "objects (sceneGraph w) =
     sceneGraph w # light # light # coreObject (core w) # map sphereObject (orbits w)"
proof -
  have "concat (map objects (map sphereObject ss)) = map sphereObject ss" for ss
    by (induction ss) (simp_all add: sphereObject_def)
  then show ?thesis
    by (simp add: sceneGraph_def light_def coreObject_def)
qed

lemma graphResources_sceneGraph:
  "graphResources (sceneGraph w) =
     coreGeometry (core w) # coreMaterial (core w)
       # concat (map (\<lambda>s. [geometry s, material s]) (orbits w))"
proof -
  have "concat (map objectResources (map sphereObject ss))
      = concat (map (\<lambda>s. [geometry s, material s]) ss)" for ss
    by (induction ss) (simp_all add: sphereObject_def objectResources_def)
  then show ?thesis
    by (simp add: graphResources_def objects_sceneGraph)
       (simp add: sceneGraph_def light_def coreObject_def objectResources_def)
qed

lemma makeOrbits_handles:
  "concat (map (\<lambda>s. [geometry s, material s]) (makeOrbits e h n)) = [h ..< h + 2 * n]"
proof -
  have "concat (map (\<lambda>s. [geometry s, material s]) (map (makeOrbit e h m) [0..<n]))
      = [h ..< h + 2 * n]" for m
  proof (induction n)
    case 0
    then show ?case by simp
  next
    case (Suc n)
    have "[h ..< h + 2 * Suc n] = [h ..< h + 2 * n] @ [h + 2 * n, h + 2 * n + 1]"
      by (simp add: upt_Suc_append)
    then show ?case using Suc by (simp add: makeOrbit_def)
  qed
  then show ?thesis by (simp add: makeOrbits_def)
qed

lemma effect_success:
  assumes "webGL e" "importOk e" "rendererOk e" "mountRef st"
  shows "refs (effect e st) = Some
       \<lparr> antialias = (getPerformanceLevel (hardwareConcurrency e) (deviceMemory e) = High),
         domElement = nextHandle st, rendererDisposals = 0, renderCalls = 0,
         core = \<lparr> coreGeometry = nextHandle st + 1, coreMaterial = nextHandle st + 2,
                  core_rotation_x = 0, core_rotation_y = 0 \<rparr>,
         orbits = makeOrbits e (nextHandle st + 3)
           (orbitCount (getPerformanceLevel (hardwareConcurrency e) (deviceMemory e))) \<rparr>"
    and "container (effect e st) = container st @ [nextHandle st]"
    and "mountRef (effect e st)"
    and "disposed (effect e st) = disposed st"
    and "scenesCreated (effect e st) = Suc (scenesCreated st)"
    and "run_paused (effect e st) = paused st"
    and "error (effect e st) = error st"
    and "spheres (effect e st) = makeOrbits e (nextHandle st + 3)
           (orbitCount (getPerformanceLevel (hardwareConcurrency e) (deviceMemory e)))"
    and "paused (effect e st) = paused st"
  using assms
  by (simp_all add: effect_def initThreeJS_success requestAnimationFrame_def spheres_def)

lemma sceneGraph_rendererDisposals [simp]:
  "sceneGraph (w\<lparr> rendererDisposals := n \<rparr>) = sceneGraph w"
  by (simp add: sceneGraph_def)

lemma cancel_fields [simp]:
  "refs (cancelAnimationFrame i st) = refs st"
  "mountRef (cancelAnimationFrame i st) = mountRef st"
  "container (cancelAnimationFrame i st) = container st"
  "disposed (cancelAnimationFrame i st) = disposed st"
  by (simp_all add: cancelAnimationFrame_def)

lemma cleanup_with_scene:
  assumes "refs st = Some w" "mountRef st" "domElement w \<in> set (container st)"
  shows "\<not> isl (cleanup st)"
    and "disposed (projr (cleanup st)) = disposed st @ graphResources (sceneGraph w)"
    and "container (projr (cleanup st)) = remove1 (domElement w) (container st)"
    and "map_option rendererDisposals (refs (projr (cleanup st))) = Some (Suc (rendererDisposals w))"
  using assms
  by (auto simp: cleanup_def removeChild_def Let_def traverse_disposeObject
      split: option.splits)

lemma cleanup_without_scene:
  assumes "refs st = None"
  shows "\<not> isl (cleanup st)"
    and "disposed (projr (cleanup st)) = disposed st"
    and "container (projr (cleanup st)) = container st"
    and "refs (projr (cleanup st)) = None"
  using assms
  by (simp_all add: cleanup_def Let_def split: option.splits)

lemma cleanup_keeps:
  assumes "cleanup st = Inr st'"
  shows "mountRef st' = mountRef st" "nextHandle st' = nextHandle st"
    "scenesCreated st' = scenesCreated st" "error st' = error st"
    "paused st' = paused st" "prefersReducedMotion st' = prefersReducedMotion st"
    "isVisible st' = isVisible st" "spheres st' = spheres st" "\<not> mounted st'"
  using assms
  by (auto simp: cleanup_def removeChild_def Let_def cancelAnimationFrame_def spheres_def
      split: option.splits if_splits sum.splits)

lemma effect_failure:
  assumes "\<not> (webGL e \<and> importOk e \<and> rendererOk e)"
  shows "refs (effect e st) = refs st" "container (effect e st) = container st"
    "disposed (effect e st) = disposed st"
  using assms
  by (auto simp: effect_def initThreeJS_def setError_def)


lemma liveResources_effect:
  assumes "webGL e" "importOk e" "rendererOk e" "mountRef st"
  shows "liveResources (effect e st) =
    [nextHandle st + 1 ..< nextHandle st + 3
       + 2 * orbitCount (getPerformanceLevel (hardwareConcurrency e) (deviceMemory e))]"
proof -
  have "a # Suc a # [a + 2 ..< a + 2 + 2 * n] = [a ..< a + 2 + 2 * n]" for a n :: nat
    by (simp add: upt_rec [of a] upt_rec [of "Suc a"])
  from this [of "nextHandle st + 1"] show ?thesis
    by (simp add: liveResources_def effect_success(1) [OF assms] graphResources_sceneGraph
        makeOrbits_handles numeral_3_eq_3 add.commute add.left_commute)
qed

lemma count_list_distinct:
  "distinct xs \<Longrightarrow> count_list xs x = (if x \<in> set xs then 1 else 0)"
  by (induction xs) auto

text \<open>
  When the first initialisation of a component fails (no graphics support, the import
  rejected, or the renderer's constructor throwing), nothing was attached or stored, and
  the cleanup that follows does not raise and leaves the host element without children.
\<close>

lemma cleanup_after_failed_first_init:
  assumes "\<not> (webGL e \<and> importOk e \<and> rendererOk e)"
    and "refs st = None" and "container st = []"
  shows "container (effect e st) = []
     \<and> \<not> isl (cleanup ((effect e st)\<lparr> mountRef := attached \<rparr>))
     \<and> container (projr (cleanup ((effect e st)\<lparr> mountRef := attached \<rparr>))) = []
     \<and> refs (projr (cleanup ((effect e st)\<lparr> mountRef := attached \<rparr>))) = None
     \<and> disposed (projr (cleanup ((effect e st)\<lparr> mountRef := attached \<rparr>))) = disposed st
     \<and> (\<not> mounted s \<longrightarrow> initThreeJS e' s = s)"
proof -
  have r: "refs ((effect e st)\<lparr> mountRef := attached \<rparr>) = None"
    using effect_failure(1) [OF assms(1), of st] assms(2) by simp
  have i: "\<not> mounted s \<longrightarrow> initThreeJS e' s = s"
    by (simp add: initThreeJS_def setError_def)
  show ?thesis
    using cleanup_without_scene [OF r] effect_failure(2,3) [OF assms(1), of st] assms(3) i
    by simp
qed

subsection \<open>Renders that change a dependency of the effect\<close>

lemma rerender_same:
  "error st = None \<Longrightarrow>
   rerender (paused st) (prefersReducedMotion st) (isVisible st) e st = Inr st"
  by (simp add: rerender_def)

lemma rerender_rebuild:
  assumes "error st = None"
    and "p \<noteq> paused st \<or> r \<noteq> prefersReducedMotion st \<or> v \<noteq> isVisible st"
    and "webGL e" "importOk e" "rendererOk e" "mountRef st"
    and "rerender p r v e st = Inr st'"
  shows "scenesCreated st' = Suc (scenesCreated st)"
    and "spheres st' = makeOrbits e (nextHandle st + 3)
           (orbitCount (getPerformanceLevel (hardwareConcurrency e) (deviceMemory e)))"
    and "run_paused st' = p"
    and "paused st' = p"
    and "map_option domElement (refs st') = Some (nextHandle st)"
proof -
  let ?st1 = "st\<lparr> paused := p, prefersReducedMotion := r, isVisible := v \<rparr>"
  obtain st2 where st2: "st' = effect e st2" "mountRef st2" "nextHandle st2 = nextHandle st"
    "scenesCreated st2 = scenesCreated st" "paused st2 = p"
  proof (cases "hasCleanup st")
    case True
    then obtain x where x: "cleanup ?st1 = Inr x" "st' = effect e x"
      using assms(1,2,7) by (auto simp: rerender_def split: sum.splits)
    show ?thesis
      using that [of x] x cleanup_keeps [OF x(1)] assms(6) by simp
  next
    case False
    then have "st' = effect e ?st1"
      using assms(1,2,7) by (auto simp: rerender_def)
    then show ?thesis
      using that [of ?st1] assms(6) by simp
  qed
  note s = effect_success [OF assms(3-5) st2(2)]
  show "scenesCreated st' = Suc (scenesCreated st)"
    by (simp add: st2 s)
  show "spheres st' = makeOrbits e (nextHandle st + 3)
           (orbitCount (getPerformanceLevel (hardwareConcurrency e) (deviceMemory e)))"
    using s(8) by (simp add: st2)
  show "run_paused st' = p" "paused st' = p"
    using s(6,9) by (simp_all add: st2)
  show "map_option domElement (refs st') = Some (nextHandle st)"
    using s(1) by (simp add: st2)
qed

lemma rerender_teardown:
  assumes "error st = None"
    and "p \<noteq> paused st \<or> r \<noteq> prefersReducedMotion st \<or> v \<noteq> isVisible st"
    and "hasCleanup st" "refs st = Some w" "mountRef st" "domElement w \<in> set (container st)"
  shows "\<not> isl (rerender p r v e st)"
    and "disposed (projr (rerender p r v e st)) = disposed st @ graphResources (sceneGraph w)"
proof -
  let ?st1 = "st\<lparr> paused := p, prefersReducedMotion := r, isVisible := v \<rparr>"
  have h: "refs ?st1 = Some w" "mountRef ?st1" "domElement w \<in> set (container ?st1)"
    using assms by simp_all
  note c = cleanup_with_scene [OF h]
  obtain x where x: "cleanup ?st1 = Inr x"
    using c(1) by (cases "cleanup ?st1") auto
  have r: "rerender p r v e st = Inr (effect e x)"
    using assms(1-3) x by (auto simp: rerender_def)
  show "\<not> isl (rerender p r v e st)"
    by (simp add: r)
  have "disposed (effect e x) = disposed x"
    by (auto simp: effect_def initThreeJS_def setError_def Let_def animate_def
        requestAnimationFrame_def)
  then show "disposed (projr (rerender p r v e st)) = disposed st @ graphResources (sceneGraph w)"
    using c(2) x by (simp add: r)
qed

lemma domElement_frame [simp]:
  "domElement (render w) = domElement w" "domElement (motion d w) = domElement w"
  "domElement (if b then motion d w else w) = domElement w"
  by (simp_all add: render_def motion_def)

lemma fire_keeps:
  "scenesCreated (fire t d st) = scenesCreated st"
  "map_option domElement (refs (fire t d st)) = map_option domElement (refs st)"
  "container (fire t d st) = container st"
  "error (fire t d st) = error st"
  "mountRef (fire t d st) = mountRef st"
  "hasCleanup (fire t d st) = hasCleanup st"
  "paused (fire t d st) = paused st"
  "prefersReducedMotion (fire t d st) = prefersReducedMotion st"
  "isVisible (fire t d st) = isVisible st"
  "nextHandle (fire t d st) = nextHandle st"
  "run_paused (fire t d st) = run_paused st"
  "mounted (fire t d st) = mounted st"
  "run_isVisible (fire t d st) = run_isVisible st"
  by (auto simp: fire_def animate_def requestAnimationFrame_def
      option.map_comp comp_def split: list.splits option.splits)

lemma frames_keeps:
  "scenesCreated (frames ticks st) = scenesCreated st
   \<and> map_option domElement (refs (frames ticks st)) = map_option domElement (refs st)
   \<and> container (frames ticks st) = container st"
proof (induction ticks arbitrary: st)
  case Nil
  then show ?case by simp
next
  case (Cons a ticks)
  obtain t d where a: "a = (t, d)" by (cases a)
  show ?case
    using Cons.IH [of "fire t d st"] by (simp add: a fire_keeps)
qed

lemma effect_scenesCreated: "scenesCreated (effect e st) \<le> Suc (scenesCreated st)"
  by (auto simp: effect_def initThreeJS_def setError_def Let_def animate_def
      requestAnimationFrame_def)

lemma frames_idle: 
  "\<not> mounted st \<or> \<not> run_isVisible st \<or> run_paused st \<Longrightarrow> refs (frames ticks st) = refs st"
proof (induction ticks arbitrary: st)
  case Nil
  then show ?case by simp
next
  case (Cons a ticks)
  obtain t d where a: "a = (t, d)" by (cases a)
  have "\<not> mounted (fire t d st) \<or> \<not> run_isVisible (fire t d st) \<or> run_paused (fire t d st)"
    using Cons.prems by (simp add: fire_keeps)
  then show ?case
    using Cons.IH [of "fire t d st"] fire_idle [OF Cons.prems, of t d] by (simp add: a)
qed


lemma mount_host_more:
  "error (mount p r (host hc dm)) = None"
  "hasCleanup (mount p r (host hc dm))"
  "mountRef (mount p r (host hc dm))"
  "container (mount p r (host hc dm)) = [0]"
  "paused (mount p r (host hc dm)) = p"
  "prefersReducedMotion (mount p r (host hc dm)) = r"
  "isVisible (mount p r (host hc dm))"
  "nextHandle (mount p r (host hc dm)) = 3 + 2 * orbitCount (getPerformanceLevel hc dm)"
  "disposed (mount p r (host hc dm)) = []"
  by (simp_all add: mount_def effect_def initial_def host_def initThreeJS_success
      requestAnimationFrame_def)

lemma host_ok: "webGL (host hc dm)" "importOk (host hc dm)" "rendererOk (host hc dm)"
  by (simp_all add: host_def)

lemma host_signals: "hardwareConcurrency (host hc dm) = hc" "deviceMemory (host hc dm) = dm"
  by (simp_all add: host_def)

text \<open>
  C2. The claim is one scene per mount, whatever happens to the flags. On the sample
  host the mount builds one scene, with the surface 0. The render that sets \<open>paused\<close>
  runs the cleanup, which releases the eighteen geometries and materials of that scene,
  and the effect again, which builds a second scene with the surface 19.
\<close>

theorem pause_builds_second_scene:
  "scenesCreated (mount False False (host None None)) = 1
   \<and> map_option domElement (refs (mount False False (host None None))) = Some 0
   \<and> \<not> isl (rerender True False True (host None None) (mount False False (host None None)))
   \<and> scenesCreated
        (projr (rerender True False True (host None None) (mount False False (host None None))))
       = 2
   \<and> map_option domElement (refs
        (projr (rerender True False True (host None None) (mount False False (host None None)))))
       = Some 19
   \<and> disposed
        (projr (rerender True False True (host None None) (mount False False (host None None))))
       = [1 ..< 19]"
proof -
  let ?M = "mount False False (host None None)"
  let ?R = "rerender True False True (host None None) ?M"
  let ?w = "\<lparr> antialias = False, domElement = 0,
       rendererDisposals = 0, renderCalls = 0,
       core = \<lparr> coreGeometry = 1, coreMaterial = 2, core_rotation_x = 0, core_rotation_y = 0 \<rparr>,
       orbits = makeOrbits (host None None) 3 8 \<rparr>"
  have w: "refs ?M = Some ?w"
    by (simp add: mount_host_refs getPerformanceLevel_absent orbitCount_def)
  have g: "graphResources (sceneGraph ?w) = [1 ..< 19]"
    using liveResources_effect [OF host_ok, of "initial False False" None None]
    by (simp add: liveResources_def w [unfolded mount_def])
       (simp add: initial_def host_def getPerformanceLevel_absent orbitCount_def)
  have n: "\<not> isl ?R"
    by (rule rerender_teardown(1) [OF _ _ _ w]) (simp_all add: mount_host_more)
  have d: "disposed (projr ?R) = disposed ?M @ graphResources (sceneGraph ?w)"
    by (rule rerender_teardown(2) [OF _ _ _ w]) (simp_all add: mount_host_more)
  from n have i: "?R = Inr (projr ?R)"
    by (cases ?R) simp_all
  have c: "scenesCreated (projr ?R) = Suc (scenesCreated ?M)"
    by (rule rerender_rebuild(1) [OF _ _ _ _ _ _ i]) (simp_all add: mount_host_more host_ok)
  have e: "map_option domElement (refs (projr ?R)) = Some (nextHandle ?M)"
    by (rule rerender_rebuild(5) [OF _ _ _ _ _ _ i]) (simp_all add: mount_host_more host_ok)
  have m: "scenesCreated ?M = 1" "map_option domElement (refs ?M) = Some 0"
    by (simp_all add: mount_host w)
  have h: "nextHandle ?M = 19" "disposed ?M = []"
    by (simp_all add: mount_host_more getPerformanceLevel_absent orbitCount_def)
  show ?thesis
    using n m c [unfolded m] e [unfolded h] d [unfolded g h] by simp
qed

lemma fire_due_spheres:
  assumes "mounted st" "run_isVisible st" "\<not> run_paused st" "\<not> run_prefersReducedMotion st"
    and "pendingFrames st \<noteq> []"
    and "frameInterval (performanceLevel st) \<le> t - lastFrameTime st"
  shows "spheres (fire t d st) = map (updateSphere d) (spheres st)"
  using assms
  by (auto simp: fire_def animate_def requestAnimationFrame_def spheres_def render_def motion_def
      split: list.splits option.splits)

lemma sample_after_first_frame:
  "position (spheres (fire 100 0 (mount False False (host None None))) ! 0) = (11 / 4, 0, 0)"
proof -
  let ?M = "mount False False (host None None)"
  have "spheres (fire 100 0 ?M) = map (updateSphere 0) (spheres ?M)"
    by (rule fire_due_spheres)
       (simp_all add: mount_host getPerformanceLevel_absent frameInterval_def targetFPS_def)
  then have "spheres (fire 100 0 ?M) ! 0 = updateSphere 0 (makeOrbit (host None None) 3 8 0)"
    by (simp add: mount_host_spheres getPerformanceLevel_absent orbitCount_def makeOrbits_nth)
  then show ?thesis
    by (simp add: updateSphere_def makeOrbit_def host_def position_def)
qed

lemma sample_pause:
  "\<not> isl (rerender True False True (host None None)
            (fire 100 0 (mount False False (host None None))))"
  "run_paused (projr (rerender True False True (host None None)
            (fire 100 0 (mount False False (host None None)))))"
  "paused (projr (rerender True False True (host None None)
            (fire 100 0 (mount False False (host None None)))))"
  "spheres (projr (rerender True False True (host None None)
            (fire 100 0 (mount False False (host None None)))))
     = makeOrbits (host None None) 22 8"
proof -
  let ?S = "fire 100 0 (mount False False (host None None))"
  let ?R = "rerender True False True (host None None) ?S"
  have "map_option domElement (refs ?S) = Some 0"
    by (simp add: fire_keeps mount_host_refs)
  then obtain w where w: "refs ?S = Some w" "domElement w = 0"
    by auto
  show n: "\<not> isl ?R"
    by (rule rerender_teardown(1) [OF _ _ _ w(1)]) (simp_all add: fire_keeps mount_host_more w)
  then have i: "?R = Inr (projr ?R)"
    by (cases ?R) simp_all
  note b = rerender_rebuild [OF _ _ host_ok _ i]
  show "run_paused (projr ?R)" "paused (projr ?R)"
    using b(3,4) by (simp_all add: fire_keeps mount_host_more)
  have "spheres (projr ?R) = makeOrbits (host None None) (nextHandle ?S + 3)
      (orbitCount (getPerformanceLevel (hardwareConcurrency (host None None))
         (deviceMemory (host None None))))"
    by (rule b(2)) (simp_all add: fire_keeps mount_host_more)
  then show "spheres (projr ?R) = makeOrbits (host None None) 22 8"
    by (simp add: fire_keeps mount_host_more host_signals getPerformanceLevel_absent
        orbitCount_def)
qed

text \<open>
  C6. The claim is that every sphere stays where it was when pausing began. On the sample
  host the first sphere is at (11/4, 0, 0) after the frame at 100 ms. The render that
  sets \<open>paused\<close> then does not raise, and after it and two more frames the first sphere
  of the scene is at the origin: it is a new sphere of a rebuilt scene.
\<close>

theorem pause_resets_spheres:
  "\<not> isl (rerender True False True (host None None)
            (fire 100 0 (mount False False (host None None))))
   \<and> paused (projr (rerender True False True (host None None)
            (fire 100 0 (mount False False (host None None)))))
   \<and> position (spheres (fire 100 0 (mount False False (host None None))) ! 0) = (11 / 4, 0, 0)
   \<and> position (spheres (frames [(200, 1 / 60), (300, 1 / 10)]
         (projr (rerender True False True (host None None)
            (fire 100 0 (mount False False (host None None)))))) ! 0) = (0, 0, 0)"
proof -
  let ?R = "rerender True False True (host None None)
            (fire 100 0 (mount False False (host None None)))"
  have "refs (frames [(200, 1 / 60), (300, 1 / 10)] (projr ?R)) = refs (projr ?R)"
    by (rule frames_idle) (simp add: sample_pause)
  then have "spheres (frames [(200, 1 / 60), (300, 1 / 10)] (projr ?R)) = spheres (projr ?R)"
    by (simp only: spheres_def)
  then have "spheres (frames [(200, 1 / 60), (300, 1 / 10)] (projr ?R)) ! 0
      = makeOrbit (host None None) 22 8 0"
    by (simp only: sample_pause(4)) (simp add: makeOrbits_nth)
  then have "position (spheres (frames [(200, 1 / 60), (300, 1 / 10)] (projr ?R)) ! 0) = (0, 0, 0)"
    by (simp add: makeOrbit_def position_def)
  then show ?thesis
    using sample_pause(1,3) sample_after_first_frame by blast
qed

subsection \<open>Teardown of a running scene\<close>

lemma sceneGraph_frame [simp]:
  "sceneGraph (render w) = sceneGraph w"
  "sceneGraph (motion d w) = sceneGraph w"
  by (simp_all add: sceneGraph_def render_def motion_def rotateCore_def coreObject_def
      sphereObject_def updateSphere_def Let_def)

lemma fire_teardown_inputs:
  "liveResources (fire t d st) = liveResources st"
  "disposed (fire t d st) = disposed st"
  by (auto simp: fire_def animate_def requestAnimationFrame_def liveResources_def
      split: list.splits option.splits)

lemma frames_teardown_inputs:
  "liveResources (frames ticks st) = liveResources st
   \<and> disposed (frames ticks st) = disposed st"
proof (induction ticks arbitrary: st)
  case Nil
  then show ?case by simp
next
  case (Cons a ticks)
  obtain t d where a: "a = (t, d)" by (cases a)
  show ?case
    using Cons.IH [of "fire t d st"] by (simp add: a fire_teardown_inputs)
qed

lemma cleanup_detached:
  assumes "\<not> mountRef st"
  shows "\<not> isl (cleanup st)"
    and "disposed (projr (cleanup st)) = disposed st @ liveResources st"
    and "container (projr (cleanup st)) = container st"
  using assms
  by (auto simp: cleanup_def Let_def traverse_disposeObject liveResources_def
      split: option.splits)

lemma cleanup_attached:
  assumes "mountRef st" "map_option domElement (refs st) = Some c" "c \<in> set (container st)"
  shows "\<not> isl (cleanup st)"
    and "disposed (projr (cleanup st)) = disposed st @ liveResources st"
    and "container (projr (cleanup st)) = remove1 c (container st)"
proof -
  obtain w where w: "refs st = Some w" "domElement w = c"
    using assms(2) by auto
  show "\<not> isl (cleanup st)" "disposed (projr (cleanup st)) = disposed st @ liveResources st"
    "container (projr (cleanup st)) = remove1 c (container st)"
    using cleanup_with_scene [OF w(1) assms(1)] assms(3) w(2)
    by (simp_all add: liveResources_def w(1))
qed


text \<open>
  C8. \<open>traverse\<close> calls its callback once on every object of a graph, whatever the
  nesting, and the cleanup's callback releases the geometry and the materials of each.
  After a successful initialisation and any number of frames, the cleanup does not raise,
  whether or not the host element is still referenced when it runs, and the handles it
  releases are exactly the geometries and materials of the scene (the core's and every
  sphere's), each once: no handle of the scene is left out and none is released twice.
\<close>

theorem teardown_releases_scene:
  assumes "webGL e" and "importOk e" and "rendererOk e" and "mountRef st"
  shows "traverse callback g s = fold callback (objects g) s
     \<and> traverse disposeObject g calls = calls @ graphResources g
     \<and> \<not> isl (cleanup ((frames ticks (effect e st))\<lparr> mountRef := attached \<rparr>))
     \<and> disposed (projr (cleanup ((frames ticks (effect e st))\<lparr> mountRef := attached \<rparr>)))
         = disposed st @ liveResources (effect e st)
     \<and> liveResources (frames ticks (effect e st)) = liveResources (effect e st)
     \<and> distinct (liveResources (effect e st))
     \<and> length (liveResources (effect e st))
         = 2 + 2 * orbitCount (getPerformanceLevel (hardwareConcurrency e) (deviceMemory e))
     \<and> count_list
           (disposed (projr (cleanup ((frames ticks (effect e st))\<lparr> mountRef := attached \<rparr>)))) h
         = count_list (disposed st) h + (if h \<in> set (liveResources (effect e st)) then 1 else 0)"
proof -
  let ?S = "frames ticks (effect e st)"
  let ?T = "?S\<lparr> mountRef := attached \<rparr>"
  note f = frames_teardown_inputs [of ticks "effect e st"] frames_keeps [of ticks "effect e st"]
  have r: "liveResources ?T = liveResources (effect e st)"
    using f(1) by (simp add: liveResources_def)
  have p: "disposed ?T = disposed st"
    using f(1) by (simp add: effect_success(4) [OF assms])
  have c: "\<not> isl (cleanup ?T) \<and> disposed (projr (cleanup ?T)) = disposed ?T @ liveResources ?T"
  proof (cases attached)
    case True
    have "map_option domElement (refs ?T) = Some (nextHandle st)"
      using f(2) by (simp add: effect_success(1) [OF assms])
    moreover have "nextHandle st \<in> set (container ?T)"
      using f(2) by (simp add: effect_success(2) [OF assms])
    moreover have "mountRef ?T"
      using True by simp
    ultimately show ?thesis
      using cleanup_attached(1,2) [of ?T "nextHandle st"] by blast
  next
    case False
    then show ?thesis
      using cleanup_detached(1,2) [of ?T] by simp
  qed
  have d: "disposed (projr (cleanup ?T)) = disposed st @ liveResources (effect e st)"
    using c by (simp only: r p)
  have l: "distinct (liveResources (effect e st))"
    by (simp add: liveResources_effect [OF assms])
  have "count_list (liveResources (effect e st)) h
      = (if h \<in> set (liveResources (effect e st)) then 1 else 0)"
    using l by (rule count_list_distinct)
  then have k: "count_list (disposed (projr (cleanup ?T))) h
      = count_list (disposed st) h + (if h \<in> set (liveResources (effect e st)) then 1 else 0)"
    by (simp add: d)
  have n: "length (liveResources (effect e st))
      = 2 + 2 * orbitCount (getPerformanceLevel (hardwareConcurrency e) (deviceMemory e))"
    by (simp add: liveResources_effect [OF assms])
  show ?thesis
    using traverse_fold [of callback g s] traverse_disposeObject [of g calls]
      c d l n k f(1)
    by blast
qed

theorem teardown_releases_scene_witness:
  "\<not> isl (cleanup ((frames [(100, 1 / 10)] (mount False False (host None None)))
                     \<lparr> mountRef := True \<rparr>))
   \<and> disposed (projr (cleanup ((frames [(100, 1 / 10)] (mount False False (host None None)))
                     \<lparr> mountRef := True \<rparr>))) = [1 ..< 19]
   \<and> count_list (disposed (projr (cleanup ((frames [(100, 1 / 10)]
         (mount False False (host None None)))\<lparr> mountRef := True \<rparr>)))) 7 = 1"
proof -
  have m: "mountRef (initial False False)"
    by (simp add: initial_def)
  have e: "webGL (host None None)" "importOk (host None None)" "rendererOk (host None None)"
    by (simp_all add: host_def)
  have l: "liveResources (effect (host None None) (initial False False)) = [1 ..< 19]"
    by (simp add: liveResources_effect [OF e m])
       (simp add: initial_def host_def getPerformanceLevel_absent orbitCount_def)
  have d: "disposed (initial False False) = []"
    by (simp add: initial_def)
  note t = teardown_releases_scene [OF e m, of "\<lambda>_ u. u" light "()" "[]"
      True "[(100, 1 / 10)]" 7, unfolded l d, folded mount_def]
  have a: "\<not> isl (cleanup ((frames [(100, 1 / 10)] (mount False False (host None None)))
                     \<lparr> mountRef := True \<rparr>))"
    using t by blast
  have b: "disposed (projr (cleanup ((frames [(100, 1 / 10)] (mount False False (host None None)))
                     \<lparr> mountRef := True \<rparr>))) = [1 ..< 19]"
    using t by simp
  have c: "count_list (disposed (projr (cleanup ((frames [(100, 1 / 10)]
         (mount False False (host None None)))\<lparr> mountRef := True \<rparr>)))) 7 = 1"
    unfolding b by (simp add: count_list_distinct)
  show ?thesis
    using a b c by blast
qed

subsection \<open>Two early frames\<close>

lemma fire_pending: "pendingFrames st \<noteq> [] \<Longrightarrow> pendingFrames (fire t d st) \<noteq> []"
  by (auto simp: fire_def animate_def requestAnimationFrame_def split: list.splits)

lemma fire_due_lastFrameTime:
  assumes "mounted st" "run_isVisible st" "\<not> run_paused st"
    and "pendingFrames st \<noteq> []"
    and "frameInterval (performanceLevel st) \<le> t - lastFrameTime st"
  shows "lastFrameTime (fire t d st) = t"
  using assms
  by (auto simp: fire_def animate_def requestAnimationFrame_def split: list.splits)

text \<open>
  C4 as stated gives exactly one render to any two frames 5 ms apart. On a low-tier host
  the frame at 1000 ms is rendered; the frames at 1010 ms and 1015 ms that follow it are
  both too early, and the count of renders stays at one.
\<close>

theorem two_ticks_counterexample:
  "renders (fire 1000 0 (mount False False (host None None))) = 1
   \<and> renders (fire 1015 (1 / 200) (fire 1010 (1 / 200)
        (fire 1000 0 (mount False False (host None None))))) = 1"
proof -
  let ?M = "mount False False (host None None)"
  let ?S = "fire 1000 0 ?M"
  have d: "frameInterval (performanceLevel ?M) \<le> 1000 - lastFrameTime ?M"
    by (simp add: mount_host getPerformanceLevel_absent frameInterval_def targetFPS_def)
  have r: "renders ?S = 1"
    using fire_due_renders [of ?M 1000 0] d by (simp add: mount_host)
  have l: "lastFrameTime ?S = 1000"
    using fire_due_lastFrameTime [of ?M 1000 0] d by (simp add: mount_host)
  have "renders (fire (1010 + 5) (1 / 200) (fire 1010 (1 / 200) ?S)) =
     (if 1000 / 30 \<le> 1010 + 5 - lastFrameTime ?S then Suc (renders ?S) else renders ?S)"
    by (rule two_ticks)
       (simp_all add: fire_keeps fire_refs_Some fire_pending fire_performanceLevel mount_host
         getPerformanceLevel_absent)
  then show ?thesis
    by (simp add: r l)
qed

subsection \<open>Teardown around a second initialisation\<close>

lemma effect_two_phase:
  "effect e st = (if mountRef st then initThreeJS e (effectBegin st) else effectBegin st)"
  by (simp add: effect_def effectBegin_def)







lemma effect_keeps_mountRef: "mountRef (effect e st) = mountRef st"
  by (auto simp: effect_def initThreeJS_def setError_def Let_def animate_def
      requestAnimationFrame_def)



end
